theory Spec2Isabelle
  imports Main
begin

section \<open>The Tradier client: request execution and response normalisation\<close>

text \<open>
  This theory embeds the resilience core of the Go package \<open>tradier\<close>: the retry loop
  \<open>Client.do\<close>, the quota text parser \<open>parseQuotaViolationExpiration\<close>, the interval
  splitter \<open>bisect\<close> / \<open>Client.GetTimeSales\<close>, and the two one-or-many decoders
  \<open>oneToInfinity\<close> and \<open>timeSaleList.UnmarshalJSON\<close>.

  Go strings are byte sequences and are modelled as \<^typ>\<open>string\<close>. The packages the code
  calls but does not define (\<open>encoding/json\<close>, \<open>net/http\<close>, \<open>cenkalti/backoff\<close>, the wall
  clock) are parameters of the model: a record of functions that the definitions below
  receive and call exactly where the source calls the library.
\<close>

subsection \<open>Instants and durations (package \<open>time\<close>)\<close>

text \<open>
  A \<open>time.Time\<close> is modelled by its wall-clock reading in nanoseconds relative to the
  Unix epoch, an unbounded integer: every instant this code builds lies within
  \<open>2^63\<close> milliseconds of the epoch plus a few durations, far inside the range of the
  64-bit seconds counter of \<open>time.Time\<close>. A \<open>time.Duration\<close> is a signed 64-bit count of
  nanoseconds: \<open>Time.Sub\<close> saturates at the two ends of that range and \<open>+\<close> on
  durations wraps around, as Go's \<open>int64\<close> does.
\<close>

type_synonym instant = int
type_synonym duration = int

definition Second :: duration where
  "Second = 1000000000"

definition Minute :: duration where
  "Minute = 60 * Second"

definition maxDuration :: duration where
  "maxDuration = 2 ^ 63 - 1"

definition minDuration :: duration where
  "minDuration = - (2 ^ 63)"

definition int64_wrap :: "int \<Rightarrow> int" where
  "int64_wrap x = (x + 2 ^ 63) mod 2 ^ 64 - 2 ^ 63"

definition duration_add :: "duration \<Rightarrow> duration \<Rightarrow> duration" where
  "duration_add a b = int64_wrap (a + b)"

text \<open>Go's integer division truncates toward zero.\<close>

definition go_quot :: "int \<Rightarrow> int \<Rightarrow> int" where
  "go_quot a b = sgn a * sgn b * (\<bar>a\<bar> div \<bar>b\<bar>)"

text \<open>\<open>time.Time{}\<close> is January 1 of year 1, 00:00:00 UTC.\<close>

definition time_zero :: instant where
  "time_zero = - 62135596800 * Second"

definition time_IsZero :: "instant \<Rightarrow> bool" where
  "time_IsZero t = (t = time_zero)"

definition time_Unix :: "int \<Rightarrow> int \<Rightarrow> instant" where
  "time_Unix sec nsec = sec * Second + nsec"

definition time_Sub :: "instant \<Rightarrow> instant \<Rightarrow> duration" where
  "time_Sub t u =
     (let d = t - u in
      if d > maxDuration then maxDuration
      else if d < minDuration then minDuration
      else d)"

definition time_Add :: "instant \<Rightarrow> duration \<Rightarrow> instant" where
  "time_Add t d = t + d"

definition time_After :: "instant \<Rightarrow> instant \<Rightarrow> bool" where
  "time_After t u = (u < t)"

subsection \<open>\<open>strings.HasPrefix\<close>, \<open>strings.Fields\<close>, \<open>strconv.ParseInt\<close>\<close>

definition HasPrefix :: "string \<Rightarrow> string \<Rightarrow> bool" where
  "HasPrefix s pre = (take (length pre) s = pre)"

text \<open>
  \<open>strings.Fields\<close> splits around runs of white space as \<open>unicode.IsSpace\<close> defines it.
  On the bytes of a Go string these are the six ASCII characters tab, line feed,
  vertical tab, form feed, carriage return and space, and the UTF-8 encodings of
  U+0085, U+00A0, U+1680, U+2000 to U+200A, U+2028, U+2029, U+202F, U+205F and U+3000.
  \<open>space_width s\<close> is the number of bytes of the white-space rune at the head of \<open>s\<close>,
  and 0 when \<open>s\<close> does not start with one.
\<close>

definition space_width :: "string \<Rightarrow> nat" where
  "space_width s =
     (case map of_char s :: nat list of
        [] \<Rightarrow> 0
      | n # ns \<Rightarrow>
          if n = 32 \<or> (9 \<le> n \<and> n \<le> 13) then 1
          else if n = 194 then
            (case ns of
               k # _ \<Rightarrow> if k = 133 \<or> k = 160 then 2 else 0
             | [] \<Rightarrow> 0)
          else if n = 225 then
            (if take 2 ns = [154, 128] then 3 else 0)
          else if n = 226 then
            (case take 2 ns of
               [j, k] \<Rightarrow>
                 if j = 128 \<and> ((128 \<le> k \<and> k \<le> 138) \<or> k = 168 \<or> k = 169 \<or> k = 175)
                 then 3
                 else if j = 129 \<and> k = 159 then 3
                 else 0
             | _ \<Rightarrow> 0)
          else if n = 227 then
            (if take 2 ns = [128, 128] then 3 else 0)
          else 0)"

function fields_from :: "string \<Rightarrow> string \<Rightarrow> string list" where
  "fields_from cur [] = (if cur = [] then [] else [cur])"
| "fields_from cur (c # cs) =
     (if space_width (c # cs) = 0 then fields_from (cur @ [c]) cs
      else (if cur = [] then [] else [cur])
           @ fields_from [] (drop (space_width (c # cs) - 1) cs))"
  by pat_completeness auto
termination
  by (relation "measure (\<lambda>(cur, s). length s)") auto

definition Fields :: "string \<Rightarrow> string list" where
  "Fields s = fields_from [] s"

text \<open>
  \<open>strconv.ParseInt(s, 10, 64)\<close>: an optional sign, then one or more decimal digits and
  nothing else; a value outside the signed 64-bit range is a range error. The source
  only tests the error against \<open>nil\<close>, so the two kinds of error are one \<open>None\<close>.
\<close>

definition is_digit :: "char \<Rightarrow> bool" where
  "is_digit c = (48 \<le> (of_char c :: nat) \<and> (of_char c :: nat) \<le> 57)"

definition digit_val :: "char \<Rightarrow> int" where
  "digit_val c = of_char c - 48"

definition decimal_value :: "string \<Rightarrow> int" where
  "decimal_value ds = foldl (\<lambda>n c. n * 10 + digit_val c) 0 ds"

definition ParseInt :: "string \<Rightarrow> int option" where
  "ParseInt s =
     (case s of
        [] \<Rightarrow> None
      | c # cs \<Rightarrow>
          (let neg = (c = CHR ''-'');
               ds = (if c = CHR ''+'' \<or> c = CHR ''-'' then cs else s)
           in if ds = [] \<or> \<not> list_all is_digit ds then None
              else let un = decimal_value ds
                   in if \<not> neg \<and> un \<ge> 2 ^ 63 then None
                      else if neg \<and> un > 2 ^ 63 then None
                      else Some (if neg then - un else un)))"

subsection \<open>parseQuotaViolationExpiration (rate_limit.go)\<close>

text \<open>
  The index expression \<open>parts[len(parts)-1]\<close> panics when \<open>parts\<close> is empty; the model
  keeps that branch.
\<close>

datatype 'a returned_or_panic = Returned 'a | Panicked string

definition parseQuotaViolationExpiration :: "string \<Rightarrow> instant returned_or_panic" where
  "parseQuotaViolationExpiration body =
     (if \<not> HasPrefix body ''Quota Violation'' then Returned time_zero
      else
        let parts = Fields body in
        if parts = [] then Panicked ''index out of range [-1]''
        else
          (case ParseInt (parts ! (length parts - 1)) of
             None \<Rightarrow> Returned time_zero
           | Some ms \<Rightarrow> Returned (time_Unix (go_quot ms 1000) 0)))"

subsection \<open>Requests, responses and errors\<close>

text \<open>
  The fields of \<open>http.Request\<close> and \<open>http.Response\<close> that the code reads or writes.
  \<open>RespBody\<close> is what \<open>ioutil.ReadAll(resp.Body)\<close> returns. \<open>TradierError\<close> is declared in
  a file of the package that is not among the sources; its fields are the three the
  code uses: \<open>HttpStatusCode\<close>, \<open>Fault.FaultString\<close> and \<open>Fault.Detail.ErrorCode\<close>.
\<close>

record request =
  Method :: string
  URL :: string
  Body :: "string option"
  Header :: "(string \<times> string) list"

record response =
  StatusCode :: int
  RespBody :: string

record TradierError =
  HttpStatusCode :: int
  FaultString :: string
  ErrorCode :: string

record Client =
  endpoint :: string
  authHeader :: string
  retryLimit :: int
  account :: string

text \<open>The values of Go's \<open>error\<close> interface that reach the callers of \<open>do\<close>.\<close>

datatype error =
    TransportError string
  | RequestError string
  | Fault TradierError
  | DecodeError string

text \<open>
  \<open>client.Do\<close> returns a response with a \<open>nil\<close> error, or an error (with a response
  only when a redirect policy failed).
\<close>

datatype do_result =
    DoFailed string "response option"
  | DoResponse response

text \<open>
  What a run does to the outside is recorded as a trace: one \<open>Attempt\<close> per call of
  \<open>client.Do\<close>, with the request and what came back, and one \<open>Slept\<close> per call of
  \<open>time.Sleep\<close>. Writes to \<open>Logger\<close> change nothing the code reads and are left out.
\<close>

datatype event =
    is_Attempt: Attempt request do_result
  | Slept duration

definition attempts :: "event list \<Rightarrow> nat" where
  "attempts tr = length (filter is_Attempt tr)"

definition ErrBodyBufferOverflow :: string where
  "ErrBodyBufferOverflow = ''protocol.http.TooBigBody''"

text \<open>\<open>backoff.Stop\<close> of package \<open>cenkalti/backoff\<close> is the duration \<open>-1\<close>.\<close>

definition backoff_Stop :: duration where
  "backoff_Stop = - 1"

subsection \<open>The libraries and the world as parameters\<close>

text \<open>
  \<open>'w\<close> is the state of everything outside the function: the network, the clock, the
  state of the \<open>backoff.BackOff\<close> held by the client. Each library call that reads or
  changes it takes the world and returns the new one.
  \<^item> \<open>newRequest method url body\<close> is \<open>http.NewRequest\<close>: an error for a method or URL it
    rejects, else the request with an empty header;
  \<^item> \<open>valuesEncode\<close> is \<open>url.Values.Encode\<close>;
  \<^item> \<open>clientDo\<close> is \<open>tc.client.Do\<close>; \<open>timeNow\<close> is \<open>time.Now\<close>; \<open>timeSleep\<close> is \<open>time.Sleep\<close>;
    \<open>NextBackOff\<close> is \<open>tc.backoff.NextBackOff\<close>;
  \<^item> \<open>unmarshalFault data v\<close> is \<open>json.Unmarshal(data, &v)\<close> for a \<open>TradierError\<close> that
    already holds values: it returns \<open>v\<close> as the decoder left it, and the error.
\<close>

record 'w env =
  newRequest :: "string \<Rightarrow> string \<Rightarrow> string option \<Rightarrow> string + request"
  valuesEncode :: "(string \<times> string list) list \<Rightarrow> string"
  clientDo :: "request \<Rightarrow> 'w \<Rightarrow> do_result \<times> 'w"
  timeNow :: "'w \<Rightarrow> instant \<times> 'w"
  timeSleep :: "duration \<Rightarrow> 'w \<Rightarrow> 'w"
  NextBackOff :: "'w \<Rightarrow> duration \<times> 'w"
  unmarshalFault :: "string \<Rightarrow> TradierError \<Rightarrow> TradierError \<times> string option"

subsection \<open>makeSignedRequest\<close>

text \<open>\<open>http.Header.Set\<close> replaces the value of a key or adds the key.\<close>

definition Header_Set :: "string \<Rightarrow> string \<Rightarrow> (string \<times> string) list \<Rightarrow> (string \<times> string) list" where
  "Header_Set k v h = filter (\<lambda>kv. fst kv \<noteq> k) h @ [(k, v)]"

definition makeSignedRequest ::
  "'w env \<Rightarrow> Client \<Rightarrow> string \<Rightarrow> string \<Rightarrow> (string \<times> string list) list option
     \<Rightarrow> string + request" where
  "makeSignedRequest env tc method url body =
     (let bodyReader = map_option (valuesEncode env) body in
      case newRequest env method url bodyReader of
        Inl err \<Rightarrow> Inl err
      | Inr req \<Rightarrow>
          (let h1 = Header_Set ''Accept'' ''application/json'' (Header req);
               h2 = Header_Set ''Authorization'' (authHeader tc) h1;
               h3 = (if method \<noteq> ''DELETE''
                     then Header_Set ''Content-Type'' ''application/x-www-form-urlencoded'' h2
                     else h2)
           in Inr (req\<lparr>Header := h3\<rparr>)))"

subsection \<open>The retry loop \<open>Client.do\<close>\<close>

text \<open>
  One pass through the body of the \<open>for\<close> loop either leaves the function (\<open>Done\<close>: a
  \<open>return\<close>, the \<open>break\<close> followed by the final \<open>return\<close>, or a panic) or goes round again
  (\<open>Again\<close>) with the values of \<open>resp\<close>, \<open>err\<close> and \<open>sleep\<close> it has assigned.
\<close>

datatype 'w step =
    Done "(response option \<times> error option) returned_or_panic" "'w \<times> event list"
  | Again "response option" "error option" duration "'w \<times> event list"

text \<open>The end of the loop body: the sleep between attempts.\<close>

definition sleep_between ::
  "'w env \<Rightarrow> int \<Rightarrow> int \<Rightarrow> response option \<Rightarrow> error option \<Rightarrow> duration
     \<Rightarrow> 'w \<times> event list \<Rightarrow> 'w step" where
  "sleep_between env maxRetries i resp err sleep st =
     (case st of (w, tr) \<Rightarrow>
        if i + 1 \<le> maxRetries \<and> sleep \<noteq> backoff_Stop
        then Again resp err sleep (timeSleep env sleep w, tr @ [Slept sleep])
        else Again resp err sleep (w, tr))"

definition do_attempt ::
  "'w env \<Rightarrow> Client \<Rightarrow> string \<Rightarrow> string \<Rightarrow> (string \<times> string list) list option
     \<Rightarrow> int \<Rightarrow> int \<Rightarrow> duration \<Rightarrow> 'w \<times> event list \<Rightarrow> 'w step" where
  "do_attempt env tc method url body maxRetries i sleep st =
     (case st of (w, tr) \<Rightarrow>
      (case makeSignedRequest env tc method url body of
        Inl e \<Rightarrow> Done (Returned (None, Some (RequestError e))) (w, tr)
      | Inr req \<Rightarrow>
          (case clientDo env req w of
             (DoResponse resp, w1) \<Rightarrow>
               let tr1 = tr @ [Attempt req (DoResponse resp)] in
               if StatusCode resp = 200
               then Done (Returned (Some resp, None)) (w1, tr1)
               else
                 (case unmarshalFault env (RespBody resp)
                         \<lparr>HttpStatusCode = StatusCode resp, FaultString = [], ErrorCode = []\<rparr> of
                    (tradierErr, None) \<Rightarrow>
                      Done (Returned (Some resp, Some (Fault tradierErr))) (w1, tr1)
                  | (tradierErr0, Some jsonErr) \<Rightarrow>
                      let tradierErr = tradierErr0\<lparr>FaultString := RespBody resp\<rparr> in
                      (case parseQuotaViolationExpiration (FaultString tradierErr) of
                         Panicked m \<Rightarrow> Done (Panicked m) (w1, tr1)
                       | Returned rateLimitExpiry \<Rightarrow>
                           (case timeNow env w1 of (now1, w2) \<Rightarrow>
                              if time_After rateLimitExpiry (time_Add now1 sleep)
                              then
                                (case timeNow env w2 of (now2, w3) \<Rightarrow>
                                   sleep_between env maxRetries i (Some resp)
                                     (Some (Fault tradierErr))
                                     (duration_add (time_Sub rateLimitExpiry now2) (1 * Second))
                                     (w3, tr1))
                              else
                                (case NextBackOff env w2 of (sleep', w3) \<Rightarrow>
                                   sleep_between env maxRetries i (Some resp)
                                     (Some (Fault tradierErr)) sleep' (w3, tr1)))))
           | (DoFailed e ropt, w1) \<Rightarrow>
               (case NextBackOff env w1 of (sleep', w2) \<Rightarrow>
                  sleep_between env maxRetries i ropt (Some (TransportError e)) sleep'
                    (w2, tr @ [Attempt req (DoFailed e ropt)])))))"

function do_loop ::
  "'w env \<Rightarrow> Client \<Rightarrow> string \<Rightarrow> string \<Rightarrow> (string \<times> string list) list option
     \<Rightarrow> int \<Rightarrow> int \<Rightarrow> duration \<Rightarrow> response option \<Rightarrow> error option \<Rightarrow> 'w \<times> event list
     \<Rightarrow> (response option \<times> error option) returned_or_panic \<times> ('w \<times> event list)" where
  "do_loop env tc method url body maxRetries i sleep resp err st =
     (if i \<le> maxRetries then
        (case do_attempt env tc method url body maxRetries i sleep st of
           Done r st' \<Rightarrow> (r, st')
         | Again resp' err' sleep' st' \<Rightarrow>
             do_loop env tc method url body maxRetries (i + 1) sleep' resp' err' st')
      else (Returned (resp, err), st))"
  by pat_completeness auto
termination
  by (relation "measure (\<lambda>(env, tc, method, url, body, maxRetries, i, rest).
                   nat (maxRetries + 1 - i))") auto

text \<open>
  \<open>do\<close> starts the loop with \<open>i = 0\<close> and the zero values of \<open>resp\<close>, \<open>err\<close> and \<open>sleep\<close>.
\<close>

definition Client_do ::
  "'w env \<Rightarrow> Client \<Rightarrow> string \<Rightarrow> string \<Rightarrow> (string \<times> string list) list option
     \<Rightarrow> int \<Rightarrow> 'w \<times> event list
     \<Rightarrow> (response option \<times> error option) returned_or_panic \<times> ('w \<times> event list)" where
  "Client_do env tc method url body maxRetries st =
     do_loop env tc method url body maxRetries 0 0 None None st"

subsection \<open>bisect\<close>

definition bisect :: "'w env \<Rightarrow> instant \<Rightarrow> instant \<Rightarrow> 'w \<Rightarrow> instant \<times> 'w" where
  "bisect env start end w =
     (case (if time_IsZero end then timeNow env w else (end, w)) of
        (end', w') \<Rightarrow>
          let delta = time_Sub end' start;
              middle = time_Add start (go_quot delta 2)
          in (middle, w'))"

subsection \<open>The JSON decoder as a parameter\<close>

text \<open>
  \<open>json.Unmarshal(data, &v)\<close> into a fresh value of the element type and into a fresh
  slice of it. Both return Go's \<open>error\<close> (here its message) or the decoded value.
\<close>

record 'a json_codec =
  unmarshalOne :: "string \<Rightarrow> string + 'a"
  unmarshalMany :: "string \<Rightarrow> string + 'a list"

subsection \<open>timeSaleList.UnmarshalJSON\<close>

text \<open>
  The receiver \<open>*tsl\<close> is passed in and returned: it is assigned only on success.
  The result pairs the receiver after the call with the returned \<open>error\<close> (\<open>None\<close> is \<open>nil\<close>).
\<close>

definition timeSaleList_UnmarshalJSON ::
  "'a json_codec \<Rightarrow> 'a list \<Rightarrow> string \<Rightarrow> 'a list \<times> string option" where
  "timeSaleList_UnmarshalJSON js tsl data =
     (case unmarshalMany js data of
        Inr tss \<Rightarrow> (tss, None)
      | Inl _ \<Rightarrow>
          (case unmarshalOne js data of
             Inr ts \<Rightarrow> ([ts], None)
           | Inl err \<Rightarrow> (tsl, Some err)))"

subsection \<open>oneToInfinity\<close>

text \<open>
  \<open>oneToInfinity\<close> has no error result: it returns the slice or panics with the error of
  the second \<open>json.Unmarshal\<close>. A panic is a value of the model.
\<close>

definition oneToInfinity :: "'a json_codec \<Rightarrow> string \<Rightarrow> 'a list returned_or_panic" where
  "oneToInfinity js b =
     (case unmarshalOne js b of
        Inl _ \<Rightarrow>
          (case unmarshalMany js b of
             Inl err \<Rightarrow> Panicked err
           | Inr results \<Rightarrow> Returned results)
      | Inr result \<Rightarrow> Returned ([] @ [result]))"

text \<open>
  A decoder double for evaluation: integers written as one decimal digit, and three
  array payloads. Every other payload is rejected by both decoders, as
  \<open>json.Unmarshal\<close> rejects text that is not JSON.
\<close>

definition digit_codec :: "nat json_codec" where
  "digit_codec =
     \<lparr> unmarshalOne = (\<lambda>b.
          if b = ''7'' then Inr 7 else if b = ''null'' then Inr 0
          else Inl ''json: cannot unmarshal into Go value of type T''),
       unmarshalMany = (\<lambda>b.
          if b = ''[]'' then Inr [] else if b = ''[7]'' then Inr [7]
          else if b = ''[7,7]'' then Inr [7, 7] else if b = ''null'' then Inr []
          else Inl ''json: cannot unmarshal into Go value of type []T'') \<rparr>"

section \<open>Properties\<close>

text \<open>
  C10. \<open>timeSaleList.UnmarshalJSON\<close> tries the array first: a payload that decodes as an
  array is returned verbatim whatever the single-object decoder would say; only when the
  array decoding fails is the single object tried and returned as a one-element list;
  when both fail the error returned is the single-object decoder's and the receiver is
  left as it was. The order is the opposite of \<open>oneToInfinity\<close>: on a payload both
  decoders accept, the first returns the array and the second the singleton.
\<close>

theorem timeSaleList_UnmarshalJSON_array_first:
  "(unmarshalMany js data = Inr tss \<longrightarrow>
      timeSaleList_UnmarshalJSON js tsl data = (tss, None))
   \<and> (unmarshalMany js data = Inl e1 \<and> unmarshalOne js data = Inr ts \<longrightarrow>
      timeSaleList_UnmarshalJSON js tsl data = ([ts], None))
   \<and> (unmarshalMany js data = Inl e1 \<and> unmarshalOne js data = Inl e2 \<longrightarrow>
      timeSaleList_UnmarshalJSON js tsl data = (tsl, Some e2))
   \<and> (unmarshalMany js data = Inr tss \<and> unmarshalOne js data = Inr ts \<longrightarrow>
      timeSaleList_UnmarshalJSON js tsl data = (tss, None)
      \<and> oneToInfinity js data = Returned [ts])"
  by (simp add: timeSaleList_UnmarshalJSON_def oneToInfinity_def)

theorem timeSaleList_UnmarshalJSON_array_first_witness:
  "timeSaleList_UnmarshalJSON digit_codec [] ''[7,7]'' = ([7, 7], None)
   \<and> timeSaleList_UnmarshalJSON digit_codec [] ''7'' = ([7], None)
   \<and> timeSaleList_UnmarshalJSON digit_codec [3] ''not json'' =
        ([3], Some ''json: cannot unmarshal into Go value of type T'')
   \<and> timeSaleList_UnmarshalJSON digit_codec [] ''null'' = ([], None)
   \<and> oneToInfinity digit_codec ''null'' = Returned [0]"
proof -
  have many: "unmarshalMany digit_codec ''[7,7]'' = Inr [7, 7]"
    by (simp add: digit_codec_def)
  have one: "unmarshalMany digit_codec ''7'' =
               Inl ''json: cannot unmarshal into Go value of type []T''
             \<and> unmarshalOne digit_codec ''7'' = Inr 7"
    by (simp add: digit_codec_def)
  have bad: "unmarshalMany digit_codec ''not json'' =
               Inl ''json: cannot unmarshal into Go value of type []T''
             \<and> unmarshalOne digit_codec ''not json'' =
               Inl ''json: cannot unmarshal into Go value of type T''"
    by (simp add: digit_codec_def)
  have both: "unmarshalMany digit_codec ''null'' = Inr []
              \<and> unmarshalOne digit_codec ''null'' = Inr 0"
    by (simp add: digit_codec_def)
  from many one bad both show ?thesis
    using timeSaleList_UnmarshalJSON_array_first [of digit_codec "''[7,7]''" "[7, 7]" "[]"]
      timeSaleList_UnmarshalJSON_array_first [of digit_codec "''7''" _ "[]" _ 7]
      timeSaleList_UnmarshalJSON_array_first [of digit_codec "''not json''" _ "[3]" _ _ _]
      timeSaleList_UnmarshalJSON_array_first [of digit_codec "''null''" "[]" "[]" _ 0]
    by simp
qed

subsection \<open>The quota text parser\<close>

text \<open>
  The decimal rendering of a non-negative integer, as \<open>fmt.Sprintf("%v", T)\<close> prints it: the
  quota messages of the claims are built with it.
\<close>

fun decimal :: "nat \<Rightarrow> string" where
  "decimal n =
     (if n < 10 then [char_of (48 + n)]
      else decimal (n div 10) @ [char_of (48 + n mod 10)])"

declare decimal.simps [simp del]


lemma space_width_digit: "is_digit c \<Longrightarrow> space_width (c # cs) = 0"
  by (auto simp add: space_width_def is_digit_def)

lemma fields_from_digits:
  "list_all is_digit tok \<Longrightarrow> fields_from cur tok = (if cur @ tok = [] then [] else [cur @ tok])"
  by (induction tok arbitrary: cur) (simp_all add: space_width_digit)

lemma is_digit_char_of: "d < 10 \<Longrightarrow> is_digit (char_of (48 + d :: nat))"
  by (simp add: is_digit_def)

lemma digit_val_char_of: "d < 10 \<Longrightarrow> digit_val (char_of (48 + d :: nat)) = int d"
proof -
  assume d: "d < 10"
  have "(of_char (char_of (48 + d)) :: int) = int (of_char (char_of (48 + d)))"
    by (simp only: of_nat_of_char)
  also have "\<dots> = int (48 + d)" using d by simp
  finally show ?thesis by (simp add: digit_val_def)
qed

lemma decimal_digits: "list_all is_digit (decimal n)"
proof (induction n rule: decimal.induct)
  case (1 n)
  show ?case
  proof (cases "n < 10")
    case True
    then show ?thesis by (subst decimal.simps) (simp add: is_digit_char_of)
  next
    case False
    with 1 show ?thesis by (subst decimal.simps) (simp add: is_digit_char_of)
  qed
qed

lemma decimal_nonempty: "decimal n \<noteq> []"
  by (subst decimal.simps) simp

lemma decimal_value_snoc: "decimal_value (ds @ [c]) = decimal_value ds * 10 + digit_val c"
  by (simp add: decimal_value_def)

lemma decimal_value_decimal: "decimal_value (decimal n) = int n"
proof (induction n rule: decimal.induct)
  case (1 n)
  show ?case
  proof (cases "n < 10")
    case True
    then show ?thesis
      by (subst decimal.simps) (simp add: decimal_value_def digit_val_char_of)
  next
    case False
    with 1 have "decimal_value (decimal (n div 10)) = int (n div 10)" by simp
    with False show ?thesis
      by (subst decimal.simps) (simp add: decimal_value_snoc digit_val_char_of zdiv_int zmod_int)
  qed
qed

lemma decimal_value_append_zeros:
  "decimal_value (ds @ ''000'') = decimal_value ds * 1000"
  by (simp add: decimal_value_def digit_val_def)

lemma Fields_expires_in:
  "list_all is_digit tok \<Longrightarrow> tok \<noteq> [] \<Longrightarrow>
   Fields (''Quota Violation expires in '' @ tok) =
     [''Quota'', ''Violation'', ''expires'', ''in'', tok]"
  by (simp add: Fields_def space_width_def fields_from_digits)

lemma fields_from_nonempty: "cur \<noteq> [] \<Longrightarrow> fields_from cur s \<noteq> []"
  by (induction cur s rule: fields_from.induct) auto

lemma HasPrefix_append: "HasPrefix s pre \<Longrightarrow> s = pre @ drop (length pre) s"
  by (metis HasPrefix_def append_take_drop_id)

lemma Fields_quota_nonempty:
  assumes "HasPrefix body ''Quota Violation''"
  shows "Fields body \<noteq> []"
proof -
  obtain rest where "body = CHR ''Q'' # rest"
    using HasPrefix_append [OF assms] by simp
  moreover have "space_width (CHR ''Q'' # rest) = 0"
    by (simp add: space_width_def)
  ultimately show ?thesis
    by (simp add: Fields_def fields_from_nonempty)
qed

lemma go_quot_thousand: "0 \<le> n \<Longrightarrow> go_quot (n * 1000) 1000 = n"
  by (cases "n = 0") (simp_all add: go_quot_def sgn_if)

lemma ParseInt_decimal_000:
  assumes "int T * 1000 < 2 ^ 63"
  shows "ParseInt (decimal T @ ''000'') = Some (int T * 1000)"
proof -
  obtain c cs where cs: "decimal T = c # cs"
    using decimal_nonempty [of T] by (cases "decimal T") auto
  have dig: "list_all is_digit (decimal T @ ''000'')"
    using decimal_digits [of T] by (simp add: is_digit_def)
  then have "is_digit c" using cs by simp
  then have sign: "c \<noteq> CHR ''+''" "c \<noteq> CHR ''-''"
    by (auto simp add: is_digit_def)
  have val: "decimal_value (decimal T @ ''000'') = int T * 1000"
    by (simp only: decimal_value_append_zeros decimal_value_decimal)
  show ?thesis
    using dig val sign assms cs by (simp add: ParseInt_def)
qed

lemma decimal_1700000000: "decimal 1700000000 = ''1700000000''"
  by (simp add: decimal.simps char_of_def bit_simps)

lemma decimal_big: "decimal 9223372036854776 = ''9223372036854776''"
  by (simp add: decimal.simps char_of_def bit_simps)

text \<open>
  C6 (as amended). \<open>parseQuotaViolationExpiration\<close> never panics: the index
  \<open>len(parts)-1\<close> is in range whenever the prefix test has passed. Every body that lacks
  the prefix \<open>Quota Violation\<close>, or whose last white-space-delimited field
  \<open>strconv.ParseInt(_, 10, 64)\<close> rejects, yields the zero instant \<open>time.Time{}\<close>; so do
  the empty string and \<open>Quota Violation not a number\<close>. For every positive \<open>T\<close> with
  \<open>T * 1000 < 2^63\<close>, the body \<open>Quota Violation expires in <T>000\<close> yields the instant
  \<open>T\<close> seconds after the Unix epoch.
\<close>

theorem parseQuotaViolationExpiration_shape:
  "(\<exists>t. parseQuotaViolationExpiration body = Returned t)
   \<and> (\<not> HasPrefix body ''Quota Violation'' \<or> ParseInt (last (Fields body)) = None \<longrightarrow>
        parseQuotaViolationExpiration body = Returned time_zero)
   \<and> parseQuotaViolationExpiration [] = Returned time_zero
   \<and> parseQuotaViolationExpiration ''Quota Violation not a number'' = Returned time_zero
   \<and> (0 < T \<and> int T * 1000 < 2 ^ 63 \<longrightarrow>
        parseQuotaViolationExpiration (''Quota Violation expires in '' @ decimal T @ ''000'')
          = Returned (time_Unix (int T) 0))"
proof (intro conjI impI)
  show "\<exists>t. parseQuotaViolationExpiration body = Returned t"
    by (auto simp add: parseQuotaViolationExpiration_def Let_def Fields_quota_nonempty
        split: option.splits)
next
  assume "\<not> HasPrefix body ''Quota Violation'' \<or> ParseInt (last (Fields body)) = None"
  then show "parseQuotaViolationExpiration body = Returned time_zero"
    by (auto simp add: parseQuotaViolationExpiration_def Let_def Fields_quota_nonempty
        last_conv_nth)
next
  show "parseQuotaViolationExpiration [] = Returned time_zero"
    by (simp add: parseQuotaViolationExpiration_def HasPrefix_def)
next
  have "Fields ''Quota Violation not a number'' = [''Quota'', ''Violation'', ''not'', ''a'', ''number'']"
    by (simp add: Fields_def space_width_def)
  moreover have "ParseInt ''number'' = None"
    by (simp add: ParseInt_def is_digit_def)
  ultimately show "parseQuotaViolationExpiration ''Quota Violation not a number'' = Returned time_zero"
    by (simp add: parseQuotaViolationExpiration_def HasPrefix_def)
next
  assume T: "0 < T \<and> int T * 1000 < 2 ^ 63"
  have dig: "list_all is_digit (decimal T @ ''000'')"
    using decimal_digits [of T] by (simp add: is_digit_def)
  have "Fields (''Quota Violation expires in '' @ decimal T @ ''000'') =
          [''Quota'', ''Violation'', ''expires'', ''in'', decimal T @ ''000'']"
    using Fields_expires_in [OF dig] by simp
  moreover have "ParseInt (decimal T @ ''000'') = Some (int T * 1000)"
    using T by (simp add: ParseInt_decimal_000)
  ultimately show "parseQuotaViolationExpiration (''Quota Violation expires in '' @ decimal T @ ''000'')
          = Returned (time_Unix (int T) 0)"
    by (simp add: parseQuotaViolationExpiration_def HasPrefix_def go_quot_thousand)
qed

theorem parseQuotaViolationExpiration_shape_witness:
  "parseQuotaViolationExpiration ''not a quota message'' = Returned time_zero
   \<and> parseQuotaViolationExpiration ''Quota Violation expires in 1700000000000''
       = Returned (time_Unix 1700000000 0)"
proof -
  have "\<not> HasPrefix ''not a quota message'' ''Quota Violation''"
    by (simp add: HasPrefix_def)
  moreover have "(0::nat) < 1700000000 \<and> int 1700000000 * 1000 < 2 ^ 63"
    by simp
  ultimately show ?thesis
    using parseQuotaViolationExpiration_shape [of "''not a quota message''" 1700000000]
    by (simp add: decimal_1700000000)
qed

text \<open>
  The bound on \<open>T\<close> is needed: \<open>9223372036854776000\<close> exceeds \<open>2^63 - 1\<close>, so
  \<open>strconv.ParseInt\<close> returns a range error and the parser returns the zero instant, not
  the instant 9223372036854776 seconds after the epoch.
\<close>

theorem parseQuotaViolationExpiration_range_counterexample:
  "parseQuotaViolationExpiration (''Quota Violation expires in '' @ decimal 9223372036854776 @ ''000'')
     \<noteq> Returned (time_Unix 9223372036854776 0)"
proof -
  have "Fields ''Quota Violation expires in 9223372036854776000'' =
          [''Quota'', ''Violation'', ''expires'', ''in'', ''9223372036854776000'']"
    by (simp add: Fields_def space_width_def)
  moreover have "ParseInt ''9223372036854776000'' = None"
    by (simp add: ParseInt_def is_digit_def decimal_value_def digit_val_def)
  ultimately have "parseQuotaViolationExpiration ''Quota Violation expires in 9223372036854776000''
      = Returned time_zero"
    by (simp add: parseQuotaViolationExpiration_def HasPrefix_def)
  then show ?thesis
    by (simp add: decimal_big time_zero_def time_Unix_def Second_def)
qed

end
